theory Spec2Isabelle
  imports Main "HOL-Library.AList"
begin

text \<open>
  The sidebar item component of the documentation site (\<open>src/theme/DocSidebarItem\<close>): the
  matcher that finds the active path in the item tree, the dispatcher that picks a renderer
  for an item, the link and category renderers, the category's collapsed state over its
  life on the page, and the version selector. Each component function is a function from
  its props (and, for the category, its hook state) to what it renders; functions imported
  from the site generator are parameters.
\<close>

section \<open>JavaScript values that the sidebar component inspects\<close>

text \<open>
  The component reads \<open>item.customProps\<close> without knowing its shape: it compares it with a
  string (\<open>===\<close>), tests it for truthiness and reads its \<open>method\<close> property. The values
  below are the shapes a sidebar definition can give to it. An object is the list of its own
  string-keyed properties in insertion order, which is the order \<open>for (k in o)\<close> visits them.
\<close>

datatype jsval =
    Undefined
  | Null
  | Bool bool
  | Str string
  | Obj "(string \<times> jsval) list"

text \<open>JavaScript truthiness (\<open>if (v)\<close>, \<open>!v\<close>, \<open>v && w\<close>).\<close>

fun truthy :: "jsval \<Rightarrow> bool" where
  "truthy Undefined = False"
| "truthy Null = False"
| "truthy (Bool b) = b"
| "truthy (Str s) = (s \<noteq> [])"
| "truthy (Obj kvs) = True"

text \<open>
  Property read \<open>v.k\<close> on a truthy value: an own property of an object, \<open>undefined\<close> when the
  object has none of that name and on a string or a boolean (their prototypes have no
  \<open>method\<close> property). The component reads a property only behind a truthiness test, so the
  \<open>TypeError\<close> of \<open>undefined.k\<close> and \<open>null.k\<close> is never reached; the model returns
  \<open>Undefined\<close> there.
\<close>

fun get_prop :: "jsval \<Rightarrow> string \<Rightarrow> jsval" where
  "get_prop (Obj kvs) k = (case map_of kvs k of None \<Rightarrow> Undefined | Some v \<Rightarrow> v)"
| "get_prop v k = Undefined"

text \<open>
  An object literal \<open>{k1: v1, ..., kn: vn}\<close> defines its properties from left to right; a
  repeated key keeps its first position and takes the last value.
\<close>

definition object_literal :: "(string \<times> jsval) list \<Rightarrow> jsval" where
  "object_literal kvs = Obj (AList.updates (map fst kvs) (map snd kvs) [])"

section \<open>Sidebar items\<close>

text \<open>
  A sidebar item is an object with a \<open>type\<close> tag. The tag is kept as the string it is in
  the source, so that an item with an unrecognised tag is a value of the model. The fields
  of both variants are present on every item; a renderer reads only those of its variant.
\<close>

datatype item = Item
  (item_type: string)
  (item_label: string)
  (item_href: string)
  (item_items: "item list")
  (item_collapsible: bool)
  (item_collapsed: bool)
  (item_customProps: jsval)

section \<open>The active-path matcher\<close>

text \<open>
  \<open>isSamePath\<close> is imported from the theme's common library; it is a parameter here.
  \<open>Array.prototype.some\<close> is \<open>list_ex\<close>.
\<close>

fun isActiveSidebarItem :: "(string \<Rightarrow> string \<Rightarrow> bool) \<Rightarrow> item \<Rightarrow> string \<Rightarrow> bool" where
  "isActiveSidebarItem isSamePath (Item ty lbl href its cble cd cp) activePath =
     (if ty = ''link'' then isSamePath href activePath
      else if ty = ''category'' then
        list_ex (\<lambda>subItem. isActiveSidebarItem isSamePath subItem activePath) its
      else False)"

section \<open>The dispatcher\<close>

text \<open>
  A JSX expression \<open><C item={item} {...props} />\<close> builds an element: the component to
  render and the props it will receive. \<open>null\<close> renders nothing. The props other than
  \<open>item\<close> are passed through unchanged, whatever they are.
\<close>

datatype 'p element =
    Nothing
  | Category_element item 'p
  | VersionDropdown_element item 'p
  | Link_element item 'p

text \<open>
  The \<open>switch\<close> on \<open>item.type\<close>: the \<open>"link"\<close> case has no \<open>break\<close> after its \<open>if\<close>, so
  a link that is not a version selector falls through to \<open>default\<close>.
\<close>

definition DocSidebarItem :: "item \<Rightarrow> 'p \<Rightarrow> 'p element" where
  "DocSidebarItem item props =
     (if item_type item = ''category'' then
        (if length (item_items item) = 0 then Nothing
         else Category_element item props)
      else if item_type item = ''link'' \<and> item_customProps item = Str ''versioned'' then
        VersionDropdown_element item props
      else Link_element item props)"

definition DocSidebarItems :: "item list \<Rightarrow> 'p \<Rightarrow> 'p element list" where
  "DocSidebarItems its props = map (\<lambda>item. DocSidebarItem item props) its"

section \<open>Class lists\<close>

text \<open>
  \<open>clsx\<close> (the class-name library the component imports) walks its arguments, skips the
  falsy ones, turns a string into itself and an object into the keys whose values are
  truthy, and joins what is left with single spaces. \<open>toVal\<close> and \<open>clsx\<close> follow the
  library's two functions of these names, for the argument shapes the component passes.
\<close>

definition toVal :: "jsval \<Rightarrow> string" where
  "toVal mix =
     (case mix of
        Str s \<Rightarrow> s
      | Obj kvs \<Rightarrow>
          foldl (\<lambda>str (k, v).
                   if truthy v then (if str \<noteq> [] then str @ '' '' else str) @ k else str)
                [] kvs
      | _ \<Rightarrow> [])"

definition clsx :: "jsval list \<Rightarrow> string" where
  "clsx arguments =
     foldl (\<lambda>str tmp.
              if truthy tmp then
                (let x = toVal tmp
                 in if x \<noteq> [] then (if str \<noteq> [] then str @ '' '' else str) @ x else str)
              else str)
           [] arguments"

text \<open>
  The classes a \<open>class\<close> attribute carries are its maximal runs of characters other than
  the space. \<open>split\<close> is \<open>String.prototype.split\<close> with a one-character separator: it cuts
  at every occurrence and keeps empty pieces, so the result is never empty.
\<close>

fun split :: "char \<Rightarrow> string \<Rightarrow> string list" where
  "split sep [] = [[]]"
| "split sep (c # cs) =
     (if c = sep then [] # split sep cs
      else (case split sep cs of
              [] \<Rightarrow> [[c]]
            | w # ws \<Rightarrow> (c # w) # ws))"

definition classes_of :: "string \<Rightarrow> string set" where
  "classes_of className = set (split CHR '' '' className) - {[]}"

section \<open>The link renderer\<close>

text \<open>
  What \<open>DocSidebarItemLink\<close> puts on the page. \<open>isInternalUrl\<close> is imported from the site
  generator and is a parameter. An internal link gets the navigation wiring
  (\<open>isNavLink\<close>, \<open>exact\<close>, \<open>onClick\<close>) and shows its label; an external one shows the label
  followed by the external-link icon. The props left after \<open>item\<close>, \<open>onItemClick\<close> and
  \<open>activePath\<close> are taken out (the \<open>tabIndex\<close> an enclosing category passes down) are
  spread onto the anchor; they carry no \<open>className\<close>.
\<close>

record link_view =
  link_className :: string
  link_to :: string
  link_navigation :: bool
  link_text :: string
  link_external_icon :: bool

definition link_method :: "jsval \<Rightarrow> jsval" where
  "link_method customProps =
     (if truthy customProps then get_prop customProps ''method'' else Str ''noop'')"

definition DocSidebarItemLink ::
  "(string \<Rightarrow> string \<Rightarrow> bool) \<Rightarrow> (string \<Rightarrow> bool) \<Rightarrow> item \<Rightarrow> string \<Rightarrow> link_view" where
  "DocSidebarItemLink isSamePath isInternalUrl item activePath =
     (let href = item_href item;
          label = item_label item;
          customProps = item_customProps item;
          isActive = isActiveSidebarItem isSamePath item activePath;
          method = link_method customProps
      in \<lparr> link_className =
             clsx [Str ''menu__link'', method,
                   object_literal [(''menu__link--active'', Bool isActive)]],
           link_to = href,
           link_navigation = isInternalUrl href,
           link_text = label,
           link_external_icon = (\<not> isInternalUrl href) \<rparr>)"

section \<open>The category\<close>

text \<open>
  The state a mounted category keeps between renders: the \<open>collapsed\<close> flag of
  \<open>useCollapsible\<close> (a \<open>useState\<close> cell), the value \<open>usePrevious\<close> remembers (what
  \<open>isActive\<close> was at the render before; \<open>undefined\<close>, here \<open>None\<close>, at the first), and the
  dependency array the auto-expand effect saw at the render before (nothing before the
  first), which decides whether the effect runs again.
\<close>

record category_state =
  collapsed :: bool
  previous :: "bool option"
  effectDeps :: "(bool \<times> bool option \<times> bool) option"

definition setCollapsed :: "bool \<Rightarrow> category_state \<Rightarrow> category_state" where
  "setCollapsed v st = st\<lparr>collapsed := v\<rparr>"

definition toggleCollapsed :: "category_state \<Rightarrow> category_state" where
  "toggleCollapsed st = st\<lparr>collapsed := \<not> collapsed st\<rparr>"

text \<open>The \<open>initialState\<close> function handed to \<open>useCollapsible\<close>; it runs once, at the mount.\<close>

definition initialState :: "item \<Rightarrow> bool \<Rightarrow> bool" where
  "initialState item isActive =
     (if \<not> item_collapsible item then False
      else if isActive then False else item_collapsed item)"

definition useCollapsible :: "bool \<Rightarrow> category_state" where
  "useCollapsible init = \<lparr> collapsed = init, previous = None, effectDeps = None \<rparr>"

text \<open>
  One render's worth of \<open>useAutoExpandActiveCategory\<close>. \<open>usePrevious\<close> hands back what it
  stored at the render before and stores the current \<open>isActive\<close>. The effect runs when an
  entry of \<open>[isActive, wasActive, collapsed]\<close> differs from the render before (always at
  the first render). \<open>!wasActive\<close> holds for \<open>false\<close> and for \<open>undefined\<close>.
\<close>

definition useAutoExpandActiveCategory :: "bool \<Rightarrow> category_state \<Rightarrow> category_state" where
  "useAutoExpandActiveCategory isActive st =
     (let wasActive = previous st;
          deps = (isActive, wasActive, collapsed st);
          justBecameActive = (isActive \<and> wasActive \<noteq> Some True);
          st' = (if effectDeps st \<noteq> Some deps \<and> justBecameActive \<and> collapsed st
                 then setCollapsed False st else st)
      in st'\<lparr>previous := Some isActive, effectDeps := Some deps\<rparr>)"

text \<open>
  What \<open>DocSidebarItemCategory\<close> puts on the page from the state it is rendered with.
  \<open>menuLinkText\<close> is the class name the stylesheet module exports as
  \<open>styles.menuLinkText\<close>; the stylesheet is not part of the component, so the name is a
  parameter. The header's \<open>onClick\<close> is a handler on the state (the event's
  \<open>preventDefault\<close> does not touch the state), or \<open>undefined\<close>, here \<open>None\<close>. The children
  receive the \<open>tabIndex\<close> and the active path (and the click callback, which no property
  here reads).
  The props left after \<open>item\<close>, \<open>onItemClick\<close> and \<open>activePath\<close> are taken out (the
  \<open>tabIndex\<close> of an enclosing category) are spread onto the header; they carry no
  \<open>className\<close> and no \<open>onClick\<close>.
\<close>

definition onClick :: "item \<Rightarrow> (category_state \<Rightarrow> category_state) option" where
  "onClick item = (if item_collapsible item then Some toggleCollapsed else None)"

record category_view =
  item_className :: string
  header_className :: string
  header_onClick :: "(category_state \<Rightarrow> category_state) option"
  header_href :: "string option"
  header_text :: string
  list_collapsed :: bool
  children_tabIndex :: int
  children :: "(int \<times> string) element list"

definition DocSidebarItemCategory ::
  "(string \<Rightarrow> string \<Rightarrow> bool) \<Rightarrow> string \<Rightarrow> item \<Rightarrow> string \<Rightarrow> category_state \<Rightarrow> category_view" where
  "DocSidebarItemCategory isSamePath menuLinkText item activePath st =
     (let collapsible = item_collapsible item;
          isActive = isActiveSidebarItem isSamePath item activePath;
          tabIndex = (if collapsed st then - 1 else 0)
      in \<lparr> item_className =
             clsx [Str ''menu__list-item'',
                   object_literal [(''menu__list-item--collapsed'', Bool (collapsed st))]],
           header_className =
             clsx [Str ''menu__link'',
                   object_literal
                     [(''menu__link--sublist'', Bool collapsible),
                      (''menu__link--active'', Bool (collapsible \<and> isActive)),
                      (menuLinkText, Bool (\<not> collapsible))]],
           header_onClick = onClick item,
           header_href = (if collapsible then Some ''#'' else None),
           header_text = item_label item,
           list_collapsed = collapsed st,
           children_tabIndex = tabIndex,
           children = DocSidebarItems (item_items item) (tabIndex, activePath) \<rparr>)"

text \<open>
  The life of a mounted category. At the mount \<open>useCollapsible\<close> takes its initial state
  and the first render's effects run. Afterwards the category is rendered again (with the
  active path of that moment) or its header is clicked; a click calls the header's handler
  when it has one.
\<close>

definition render_effects ::
  "(string \<Rightarrow> string \<Rightarrow> bool) \<Rightarrow> item \<Rightarrow> string \<Rightarrow> category_state \<Rightarrow> category_state" where
  "render_effects isSamePath item activePath st =
     useAutoExpandActiveCategory (isActiveSidebarItem isSamePath item activePath) st"

definition mount :: "(string \<Rightarrow> string \<Rightarrow> bool) \<Rightarrow> item \<Rightarrow> string \<Rightarrow> category_state" where
  "mount isSamePath item activePath =
     render_effects isSamePath item activePath
       (useCollapsible (initialState item (isActiveSidebarItem isSamePath item activePath)))"

definition click_header :: "item \<Rightarrow> category_state \<Rightarrow> category_state" where
  "click_header item st = (case onClick item of None \<Rightarrow> st | Some handler \<Rightarrow> handler st)"

text \<open>
  A click on the header as it is rendered: the event goes to the \<open>onClick\<close> the rendered
  header carries, and to nothing when the header carries none.
\<close>

definition click_rendered_header :: "category_view \<Rightarrow> category_state \<Rightarrow> category_state" where
  "click_rendered_header view st =
     (case header_onClick view of None \<Rightarrow> st | Some handler \<Rightarrow> handler st)"

datatype event = Render string | Click

fun step ::
  "(string \<Rightarrow> string \<Rightarrow> bool) \<Rightarrow> item \<Rightarrow> category_state \<Rightarrow> event \<Rightarrow> category_state" where
  "step isSamePath item st (Render activePath) = render_effects isSamePath item activePath st"
| "step isSamePath item st Click = click_header item st"

definition run ::
  "(string \<Rightarrow> string \<Rightarrow> bool) \<Rightarrow> item \<Rightarrow> string \<Rightarrow> event list \<Rightarrow> category_state" where
  "run isSamePath item activePath events =
     foldl (step isSamePath item) (mount isSamePath item activePath) events"

section \<open>The version selector\<close>

text \<open>
  A version descriptor of the site configuration (\<open>customFields.api_versions\<close>).
\<close>

record api_version =
  version :: string
  label :: string
  to :: string

text \<open>
  \<open>a[i]\<close> on an array is \<open>undefined\<close> beyond its end; \<open>None\<close> stands for it. On two values
  that are each a string or \<open>undefined\<close>, \<open>==\<close> is equality of strings, \<open>undefined\<close> equal
  to itself only: equality on \<open>string option\<close>.
\<close>

definition index :: "'a list \<Rightarrow> nat \<Rightarrow> 'a option" where
  "index xs i = (if i < length xs then Some (xs ! i) else None)"

record version_link =
  className :: string
  target :: string
  caption :: string

datatype dropdown_view =
    Navbar string "version_link list"
  | Button_row "version_link list"

text \<open>
  \<open>windowSize\<close> is what the window-size hook reports, \<open>useBaseUrl\<close> the site generator's
  resolver; \<open>pathname\<close> is \<open>window.location.pathname\<close> where there is a window and \<open>None\<close>
  where \<open>typeof window\<close> is \<open>"undefined"\<close>. The desktop bar shows the item's label and one
  menu entry per version; the mobile row has one button per version.
\<close>

definition DocSidebarVersionDropdown ::
  "api_version list \<Rightarrow> string \<Rightarrow> (string \<Rightarrow> string) \<Rightarrow> string option \<Rightarrow> item \<Rightarrow> dropdown_view" where
  "DocSidebarVersionDropdown api_versions windowSize useBaseUrl pathname item =
     (if windowSize \<noteq> ''mobile'' then
        Navbar (item_label item)
          (map (\<lambda>Ver.
                  \<lparr> className =
                      ''dropdown__link '' @
                      (if item_label item = version Ver then ''dropdown__link--active'' else []),
                    target = to Ver,
                    caption = label Ver \<rparr>)
               api_versions)
      else
        Button_row
          (map (\<lambda>Ver.
                  \<lparr> className =
                      ''button button--outline button--secondary button--md '' @
                      (if (case pathname of
                             None \<Rightarrow> False
                           | Some p \<Rightarrow>
                               index (split CHR ''/'' p) 2 =
                               index (split CHR ''/'' (useBaseUrl (to Ver))) 2)
                       then ''button--active--tab shadow--lw'' else []),
                    target = useBaseUrl (to Ver),
                    caption = label Ver \<rparr>)
               api_versions))"

section \<open>Notions of the specification\<close>

text \<open>
  The links reachable from a category by descending through its items: the links among
  the items, and the links reachable from the categories among them. Items of any other
  type are not descended into. Written from the specification's words, to be compared
  with the matcher.
\<close>

fun reachable_links :: "item \<Rightarrow> item list" where
  "reachable_links (Item ty lbl href its cble cd cp) =
     concat (map (\<lambda>subItem.
                    if item_type subItem = ''link'' then [subItem]
                    else if item_type subItem = ''category'' then reachable_links subItem
                    else [])
                 its)"

text \<open>
  The active path of the latest render of a mounted category: the one of the mount until
  the category is rendered again.
\<close>

fun current_path :: "string \<Rightarrow> event list \<Rightarrow> string" where
  "current_path activePath [] = activePath"
| "current_path activePath (Render p # events) = current_path p events"
| "current_path activePath (Click # events) = current_path activePath events"

text \<open>
  The segments of a path are the pieces between its slashes, the one leading slash of an
  absolute path set aside: \<open>/docs/v2/intro\<close> has the segments \<open>docs\<close>, \<open>v2\<close>, \<open>intro\<close>.
  The second segment is missing (\<open>None\<close>) when the path has fewer than two.
\<close>

definition is_absolute :: "string \<Rightarrow> bool" where
  "is_absolute p = (case p of [] \<Rightarrow> False | c # cs \<Rightarrow> c = CHR ''/'')"

definition path_segments :: "string \<Rightarrow> string list" where
  "path_segments p =
     (case p of
        [] \<Rightarrow> []
      | c # cs \<Rightarrow> if c = CHR ''/'' then split CHR ''/'' cs else split CHR ''/'' (c # cs))"

definition second_segment :: "string \<Rightarrow> string option" where
  "second_segment p = index (path_segments p) 1"

text \<open>A button is marked active when its class attribute carries the active-tab class.\<close>

definition marked_active :: "version_link \<Rightarrow> bool" where
  "marked_active b = (''button--active--tab'' \<in> classes_of (className b))"

section \<open>The dispatcher: which renderer an item gets\<close>

lemma DocSidebarItem_VersionDropdown_iff:
  "DocSidebarItem item props = VersionDropdown_element item props \<longleftrightarrow>
     item_type item = ''link'' \<and> item_customProps item = Str ''versioned''"
  by (simp add: DocSidebarItem_def)

text \<open>
  Claim C1, as the specification states it: every link whose \<open>customProps\<close> has \<open>method\<close>
  equal to \<open>"versioned"\<close> is handed to the version selector. The dispatcher does not read
  \<open>customProps.method\<close>: it tests \<open>item.customProps === "versioned"\<close>, which an object
  never satisfies. The specification's own example item, a link with
  \<open>customProps = {method: "versioned"}\<close> and label \<open>v1.0\<close>, goes to the ordinary link
  renderer.
\<close>

theorem versioned_method_dispatch_counterexample:
  "item_type (Item ''link'' ''v1.0'' [] [] False False (Obj [(''method'', Str ''versioned'')]))
     = ''link'' \<and>
   get_prop
     (item_customProps
        (Item ''link'' ''v1.0'' [] [] False False (Obj [(''method'', Str ''versioned'')])))
     ''method'' = Str ''versioned'' \<and>
   DocSidebarItem
     (Item ''link'' ''v1.0'' [] [] False False (Obj [(''method'', Str ''versioned'')])) ()
     = Link_element
         (Item ''link'' ''v1.0'' [] [] False False (Obj [(''method'', Str ''versioned'')])) ()"
  by (simp add: DocSidebarItem_def)

text \<open>
  Claim C1, amended: every link whose \<open>customProps\<close> is itself the string
  \<open>"versioned"\<close> is handed to the version selector and not to the ordinary link renderer.
\<close>

theorem versioned_marker_dispatch:
  assumes "item_type item = ''link''"
    and "item_customProps item = Str ''versioned''"
  shows "DocSidebarItem item props = VersionDropdown_element item props \<and>
         DocSidebarItem item props \<noteq> Link_element item props"
  using assms by (simp add: DocSidebarItem_def)

theorem versioned_marker_dispatch_witness:
  "item_type (Item ''link'' ''v1.0'' ''#'' [] False False (Str ''versioned'')) = ''link'' \<and>
   item_customProps (Item ''link'' ''v1.0'' ''#'' [] False False (Str ''versioned''))
     = Str ''versioned'' \<and>
   DocSidebarItem (Item ''link'' ''v1.0'' ''#'' [] False False (Str ''versioned'')) (0::int)
     = VersionDropdown_element
         (Item ''link'' ''v1.0'' ''#'' [] False False (Str ''versioned'')) 0"
  using versioned_marker_dispatch
          [of "Item ''link'' ''v1.0'' ''#'' [] False False (Str ''versioned'')" "0::int"]
  by simp

text \<open>
  Claim C6: a category whose \<open>items\<close> sequence is empty renders nothing, whatever its other
  fields and whatever the props (the active path among them).
\<close>

theorem empty_category_renders_nothing:
  assumes "item_type item = ''category''"
    and "item_items item = []"
  shows "DocSidebarItem item props = Nothing"
  using assms by (simp add: DocSidebarItem_def)

theorem empty_category_renders_nothing_witness:
  "item_type (Item ''category'' ''Guides'' [] [] True False Undefined) = ''category'' \<and>
   item_items (Item ''category'' ''Guides'' [] [] True False Undefined) = [] \<and>
   DocSidebarItem (Item ''category'' ''Guides'' [] [] True False Undefined) ''/docs/a''
     = Nothing"
  using empty_category_renders_nothing
          [of "Item ''category'' ''Guides'' [] [] True False Undefined" "''/docs/a''"]
  by simp

text \<open>
  Claim C8: an item whose type is neither \<open>"category"\<close> nor \<open>"link"\<close> is rendered by the
  default link renderer; the dispatcher neither fails nor renders nothing.
\<close>

theorem unrecognized_type_renders_link:
  assumes "item_type item \<noteq> ''category''"
    and "item_type item \<noteq> ''link''"
  shows "DocSidebarItem item props = Link_element item props"
  using assms by (simp add: DocSidebarItem_def)

theorem unrecognized_type_renders_link_witness:
  "item_type (Item ''doc'' ''Intro'' ''/docs/intro'' [] False False Undefined) \<noteq> ''category'' \<and>
   item_type (Item ''doc'' ''Intro'' ''/docs/intro'' [] False False Undefined) \<noteq> ''link'' \<and>
   DocSidebarItem (Item ''doc'' ''Intro'' ''/docs/intro'' [] False False Undefined) (0::int)
     = Link_element (Item ''doc'' ''Intro'' ''/docs/intro'' [] False False Undefined) 0"
  using unrecognized_type_renders_link
          [of "Item ''doc'' ''Intro'' ''/docs/intro'' [] False False Undefined" "0::int"]
  by simp

section \<open>The matcher finds exactly the reachable links\<close>

lemma isActiveSidebarItem_link:
  "item_type item = ''link'' \<Longrightarrow>
   isActiveSidebarItem isSamePath item activePath = isSamePath (item_href item) activePath"
  by (cases item) simp

lemma isActiveSidebarItem_other:
  "item_type item \<noteq> ''link'' \<Longrightarrow> item_type item \<noteq> ''category'' \<Longrightarrow>
   \<not> isActiveSidebarItem isSamePath item activePath"
  by (cases item) simp

lemma isActiveSidebarItem_category:
  "item_type item = ''category'' \<Longrightarrow>
   isActiveSidebarItem isSamePath item activePath =
     (\<exists>l \<in> set (reachable_links item). isSamePath (item_href l) activePath)"
proof (induction isSamePath item activePath rule: isActiveSidebarItem.induct)
  case (1 isSamePath ty lbl href its cble cd cp activePath)
  then have ty: "ty = ''category''" by simp
  have sub: "isActiveSidebarItem isSamePath s activePath =
        (\<exists>l \<in> set (if item_type s = ''link'' then [s]
                    else if item_type s = ''category'' then reachable_links s else []).
           isSamePath (item_href l) activePath)" if s: "s \<in> set its" for s
  proof (cases "item_type s = ''link''")
    case True
    then show ?thesis by (simp add: isActiveSidebarItem_link)
  next
    case not_link: False
    show ?thesis
    proof (cases "item_type s = ''category''")
      case True
      with "1.IH" [OF _ _ s] ty not_link show ?thesis by simp
    next
      case False
      with not_link show ?thesis by (simp add: isActiveSidebarItem_other)
    qed
  qed
  show ?case using ty sub by (auto simp: list_ex_iff)
qed

lemma reachable_links_are_links:
  "l \<in> set (reachable_links item) \<Longrightarrow> item_type l = ''link''"
proof (induction item arbitrary: l rule: reachable_links.induct)
  case (1 ty lbl href its cble cd cp)
  from "1.prems" obtain s where s: "s \<in> set its"
    and l: "l \<in> set (if item_type s = ''link'' then [s]
                      else if item_type s = ''category'' then reachable_links s else [])"
    by auto
  show ?case
  proof (cases "item_type s = ''link''")
    case True
    with l show ?thesis by simp
  next
    case False
    with l have c: "item_type s = ''category''" and "l \<in> set (reachable_links s)"
      by (auto split: if_splits)
    with "1.IH" [OF s False c] show ?thesis by simp
  qed
qed

text \<open>
  Claim C2: on a category the matcher returns true exactly when the same-path predicate
  holds between the active path and the \<open>href\<close> of some link reachable by descending
  through the category's items; on a link it returns true exactly when the predicate holds
  for the link's own \<open>href\<close>.
\<close>

theorem active_matcher_reachable_links:
  "(item_type item = ''category'' \<longrightarrow>
      isActiveSidebarItem isSamePath item activePath =
        (\<exists>l \<in> set (reachable_links item). isSamePath (item_href l) activePath)) \<and>
   (item_type item = ''link'' \<longrightarrow>
      isActiveSidebarItem isSamePath item activePath = isSamePath (item_href item) activePath)"
  by (simp add: isActiveSidebarItem_category isActiveSidebarItem_link)

theorem active_matcher_reachable_links_witness:
  "item_type
     (Item ''category'' ''API'' []
        [Item ''link'' ''Intro'' ''/docs/intro'' [] False False Undefined,
         Item ''category'' ''Guides'' []
           [Item ''link'' ''A'' ''/docs/a'' [] False False Undefined] True True Undefined]
        True True Undefined) = ''category'' \<and>
   isActiveSidebarItem (=)
     (Item ''category'' ''API'' []
        [Item ''link'' ''Intro'' ''/docs/intro'' [] False False Undefined,
         Item ''category'' ''Guides'' []
           [Item ''link'' ''A'' ''/docs/a'' [] False False Undefined] True True Undefined]
        True True Undefined) ''/docs/a'' \<and>
   item_type (Item ''link'' ''A'' ''/docs/a'' [] False False Undefined) = ''link'' \<and>
   isActiveSidebarItem (=)
     (Item ''link'' ''A'' ''/docs/a'' [] False False Undefined) ''/docs/a''"
  using active_matcher_reachable_links
          [of "Item ''category'' ''API'' []
                 [Item ''link'' ''Intro'' ''/docs/intro'' [] False False Undefined,
                  Item ''category'' ''Guides'' []
                    [Item ''link'' ''A'' ''/docs/a'' [] False False Undefined]
                    True True Undefined]
                 True True Undefined" "(=)" "''/docs/a''"]
        active_matcher_reachable_links
          [of "Item ''link'' ''A'' ''/docs/a'' [] False False Undefined" "(=)" "''/docs/a''"]
  apply (simp only: item.sel)
  apply (simp only: reachable_links.simps item.sel list.map concat.simps)
  apply simp
  done

section \<open>The link's method class\<close>

text \<open>
  Claim C7: a link whose \<open>customProps\<close> is missing or undefined (a missing property reads
  as \<open>undefined\<close>) gets the method \<open>"noop"\<close>, and its class list has \<open>noop\<close> where the method
  tag would be.
\<close>

theorem missing_customProps_is_noop:
  assumes "item_customProps item = Undefined"
  shows "link_method (item_customProps item) = Str ''noop'' \<and>
         link_className (DocSidebarItemLink isSamePath isInternalUrl item activePath) =
           ''menu__link noop'' @
           (if isActiveSidebarItem isSamePath item activePath then '' menu__link--active''
            else [])"
  using assms
  by (simp add: link_method_def DocSidebarItemLink_def clsx_def toVal_def object_literal_def
        Let_def)

theorem missing_customProps_is_noop_witness:
  "item_customProps (Item ''link'' ''Intro'' ''/docs/intro'' [] False False Undefined)
     = Undefined \<and>
   link_className
     (DocSidebarItemLink (=) (\<lambda>u. True)
        (Item ''link'' ''Intro'' ''/docs/intro'' [] False False Undefined) ''/docs/a'')
     = ''menu__link noop''"
  using missing_customProps_is_noop
          [of "Item ''link'' ''Intro'' ''/docs/intro'' [] False False Undefined"
              "(=)" "\<lambda>u. True" "''/docs/a''"]
  by simp

section \<open>The category: initial state, clicks and activation\<close>

lemma mount_collapsed:
  "collapsed (mount isSamePath item activePath) =
     initialState item (isActiveSidebarItem isSamePath item activePath)"
  by (simp add: mount_def render_effects_def useAutoExpandActiveCategory_def
        useCollapsible_def initialState_def setCollapsed_def Let_def)

text \<open>
  Claim C5: the state a category starts in. A category that is not collapsible starts
  expanded; a collapsible one starts expanded when it contains the active path, and
  otherwise in the state its \<open>collapsed\<close> flag gives. This is the state the first render
  shows, and the effects of the first render leave it as it is.
\<close>

theorem initial_collapsed_state:
  fixes isSamePath item activePath menuLinkText
  defines "isActive \<equiv> isActiveSidebarItem isSamePath item activePath"
  defines "st \<equiv> useCollapsible (initialState item isActive)"
  defines "shown \<equiv>
    list_collapsed (DocSidebarItemCategory isSamePath menuLinkText item activePath st)"
  shows "(\<not> item_collapsible item \<longrightarrow> \<not> shown) \<and>
         (item_collapsible item \<and> isActive \<longrightarrow> \<not> shown) \<and>
         (item_collapsible item \<and> \<not> isActive \<longrightarrow> shown = item_collapsed item) \<and>
         collapsed (mount isSamePath item activePath) = shown"
  unfolding shown_def st_def isActive_def
  by (simp add: mount_collapsed DocSidebarItemCategory_def useCollapsible_def
        initialState_def Let_def)

theorem initial_collapsed_state_witness:
  "item_collapsible
     (Item ''category'' ''Guides'' []
        [Item ''link'' ''A'' ''/docs/a'' [] False False Undefined] True True Undefined) \<and>
   \<not> isActiveSidebarItem (=)
     (Item ''category'' ''Guides'' []
        [Item ''link'' ''A'' ''/docs/a'' [] False False Undefined] True True Undefined)
     ''/docs/b'' \<and>
   collapsed
     (mount (=)
        (Item ''category'' ''Guides'' []
           [Item ''link'' ''A'' ''/docs/a'' [] False False Undefined] True True Undefined)
        ''/docs/b'') \<and>
   isActiveSidebarItem (=)
     (Item ''category'' ''Guides'' []
        [Item ''link'' ''A'' ''/docs/a'' [] False False Undefined] True True Undefined)
     ''/docs/a'' \<and>
   \<not> collapsed
     (mount (=)
        (Item ''category'' ''Guides'' []
           [Item ''link'' ''A'' ''/docs/a'' [] False False Undefined] True True Undefined)
        ''/docs/a'') \<and>
   \<not> item_collapsible
     (Item ''category'' ''Guides'' []
        [Item ''link'' ''A'' ''/docs/a'' [] False False Undefined] False True Undefined) \<and>
   \<not> collapsed
     (mount (=)
        (Item ''category'' ''Guides'' []
           [Item ''link'' ''A'' ''/docs/a'' [] False False Undefined] False True Undefined)
        ''/docs/b'')"
  using initial_collapsed_state
          [where item = "Item ''category'' ''Guides'' []
                   [Item ''link'' ''A'' ''/docs/a'' [] False False Undefined]
                   True True Undefined"
             and isSamePath = "(=)" and activePath = "''/docs/b''"
             and menuLinkText = "''menuLinkText_x1''"]
        initial_collapsed_state
          [where item = "Item ''category'' ''Guides'' []
                   [Item ''link'' ''A'' ''/docs/a'' [] False False Undefined]
                   True True Undefined"
             and isSamePath = "(=)" and activePath = "''/docs/a''"
             and menuLinkText = "''menuLinkText_x1''"]
        initial_collapsed_state
          [where item = "Item ''category'' ''Guides'' []
                   [Item ''link'' ''A'' ''/docs/a'' [] False False Undefined]
                   False True Undefined"
             and isSamePath = "(=)" and activePath = "''/docs/b''"
             and menuLinkText = "''menuLinkText_x1''"]
  by simp

text \<open>
  Claim C4: a click on the rendered header of a collapsible category flips its collapsed
  state, once for the click; a click on the rendered header of a category that is not
  collapsible changes nothing (that header carries no click handler). The click of the
  category's life on the page is this click on the header it renders, whatever the active
  path and the stylesheet's class name.
\<close>

theorem header_click_toggles:
  fixes isSamePath menuLinkText item activePath st
  defines "view \<equiv> DocSidebarItemCategory isSamePath menuLinkText item activePath st"
  shows "(item_collapsible item \<longrightarrow>
            header_onClick view \<noteq> None \<and>
            collapsed (click_rendered_header view st) = (\<not> collapsed st)) \<and>
         (\<not> item_collapsible item \<longrightarrow>
            header_onClick view = None \<and> click_rendered_header view st = st) \<and>
         step isSamePath item st Click = click_rendered_header view st"
  unfolding view_def
  by (simp add: click_rendered_header_def DocSidebarItemCategory_def Let_def click_header_def
        onClick_def toggleCollapsed_def)

theorem header_click_toggles_witness:
  "item_collapsible
     (Item ''category'' ''Guides'' []
        [Item ''link'' ''A'' ''/docs/a'' [] False False Undefined] True True Undefined) \<and>
   DocSidebarItem
     (Item ''category'' ''Guides'' []
        [Item ''link'' ''A'' ''/docs/a'' [] False False Undefined] True True Undefined)
     (0::int, ''/docs/b'')
     = Category_element
         (Item ''category'' ''Guides'' []
            [Item ''link'' ''A'' ''/docs/a'' [] False False Undefined] True True Undefined)
         (0, ''/docs/b'') \<and>
   collapsed
     (mount (=)
        (Item ''category'' ''Guides'' []
           [Item ''link'' ''A'' ''/docs/a'' [] False False Undefined] True True Undefined)
        ''/docs/b'') \<and>
   \<not> collapsed
       (click_rendered_header
          (DocSidebarItemCategory (=) ''menuLinkText_x1''
             (Item ''category'' ''Guides'' []
                [Item ''link'' ''A'' ''/docs/a'' [] False False Undefined] True True Undefined)
             ''/docs/b''
             (mount (=)
                (Item ''category'' ''Guides'' []
                   [Item ''link'' ''A'' ''/docs/a'' [] False False Undefined]
                   True True Undefined)
                ''/docs/b''))
          (mount (=)
             (Item ''category'' ''Guides'' []
                [Item ''link'' ''A'' ''/docs/a'' [] False False Undefined] True True Undefined)
             ''/docs/b'')) \<and>
   \<not> item_collapsible
       (Item ''category'' ''Guides'' []
          [Item ''link'' ''A'' ''/docs/a'' [] False False Undefined] False True Undefined) \<and>
   click_rendered_header
     (DocSidebarItemCategory (=) ''menuLinkText_x1''
        (Item ''category'' ''Guides'' []
           [Item ''link'' ''A'' ''/docs/a'' [] False False Undefined] False True Undefined)
        ''/docs/b''
        (mount (=)
           (Item ''category'' ''Guides'' []
              [Item ''link'' ''A'' ''/docs/a'' [] False False Undefined] False True Undefined)
           ''/docs/b''))
     (mount (=)
        (Item ''category'' ''Guides'' []
           [Item ''link'' ''A'' ''/docs/a'' [] False False Undefined] False True Undefined)
        ''/docs/b'')
     = mount (=)
         (Item ''category'' ''Guides'' []
            [Item ''link'' ''A'' ''/docs/a'' [] False False Undefined] False True Undefined)
         ''/docs/b''"
proof -
  have shown: "DocSidebarItem
     (Item ''category'' ''Guides'' []
        [Item ''link'' ''A'' ''/docs/a'' [] False False Undefined] True True Undefined)
     (0::int, ''/docs/b'')
     = Category_element
         (Item ''category'' ''Guides'' []
            [Item ''link'' ''A'' ''/docs/a'' [] False False Undefined] True True Undefined)
         (0, ''/docs/b'')"
    by (simp add: DocSidebarItem_def)
  have mounted: "collapsed
     (mount (=)
        (Item ''category'' ''Guides'' []
           [Item ''link'' ''A'' ''/docs/a'' [] False False Undefined] True True Undefined)
        ''/docs/b'')"
    by (simp add: mount_collapsed initialState_def)
  show ?thesis
    using shown mounted
      header_click_toggles
        [where item = "Item ''category'' ''Guides'' []
                 [Item ''link'' ''A'' ''/docs/a'' [] False False Undefined]
                 True True Undefined"
           and isSamePath = "(=)" and activePath = "''/docs/b''"
           and menuLinkText = "''menuLinkText_x1''"
           and st = "mount (=)
                 (Item ''category'' ''Guides'' []
                    [Item ''link'' ''A'' ''/docs/a'' [] False False Undefined]
                    True True Undefined)
                 ''/docs/b''"]
      header_click_toggles
        [where item = "Item ''category'' ''Guides'' []
                 [Item ''link'' ''A'' ''/docs/a'' [] False False Undefined]
                 False True Undefined"
           and isSamePath = "(=)" and activePath = "''/docs/b''"
           and menuLinkText = "''menuLinkText_x1''"
           and st = "mount (=)
                 (Item ''category'' ''Guides'' []
                    [Item ''link'' ''A'' ''/docs/a'' [] False False Undefined]
                    False True Undefined)
                 ''/docs/b''"]
    by (simp del: step.simps)
qed

lemma previous_render_effects:
  "previous (render_effects isSamePath item p st) =
     Some (isActiveSidebarItem isSamePath item p)"
  by (simp add: render_effects_def useAutoExpandActiveCategory_def Let_def)

lemma effectDeps_render_effects:
  "effectDeps (render_effects isSamePath item p st) =
     Some (isActiveSidebarItem isSamePath item p, previous st, collapsed st)"
  by (simp add: render_effects_def useAutoExpandActiveCategory_def Let_def)

lemma click_header_keeps:
  "previous (click_header item st) = previous st"
  "effectDeps (click_header item st) = effectDeps st"
  by (simp_all add: click_header_def onClick_def toggleCollapsed_def)

lemma run_snoc:
  "run isSamePath item p0 (events @ [e]) =
     step isSamePath item (run isSamePath item p0 events) e"
  by (simp add: run_def)

lemma current_path_snoc:
  "current_path p0 (events @ [e]) =
     (case e of Render p \<Rightarrow> p | Click \<Rightarrow> current_path p0 events)"
  by (induction p0 events rule: current_path.induct) (simp_all split: event.splits)

text \<open>
  What \<open>usePrevious\<close> holds between two renders is the matcher's value at the latest
  render, and the dependency array remembered for the effect starts with the same value.
\<close>

lemma previous_run:
  "previous (run isSamePath item p0 events) =
     Some (isActiveSidebarItem isSamePath item (current_path p0 events))"
proof (induction events rule: rev_induct)
  case Nil
  show ?case by (simp add: run_def mount_def previous_render_effects)
next
  case (snoc e events)
  then show ?case
    by (cases e)
       (simp_all add: run_snoc current_path_snoc previous_render_effects click_header_keeps)
qed

lemma effectDeps_run:
  "\<exists>w c. effectDeps (run isSamePath item p0 events) =
     Some (isActiveSidebarItem isSamePath item (current_path p0 events), w, c)"
proof (induction events rule: rev_induct)
  case Nil
  show ?case by (simp add: run_def mount_def effectDeps_render_effects)
next
  case (snoc e events)
  then show ?case
    by (cases e)
       (simp_all add: run_snoc current_path_snoc effectDeps_render_effects click_header_keeps)
qed

text \<open>
  A render leaves a category collapsed exactly when it was collapsed and the render is not
  an activation edge. At an activation edge the dependency array differs from the
  remembered one in its first entry, so the effect does run.
\<close>

lemma collapsed_render:
  "collapsed (run isSamePath item p0 (events @ [Render p])) =
     (collapsed (run isSamePath item p0 events) \<and>
      \<not> (isActiveSidebarItem isSamePath item p \<and>
         \<not> isActiveSidebarItem isSamePath item (current_path p0 events)))"
proof -
  obtain w c where "effectDeps (run isSamePath item p0 events) =
     Some (isActiveSidebarItem isSamePath item (current_path p0 events), w, c)"
    using effectDeps_run by blast
  then show ?thesis
    by (auto simp add: run_snoc render_effects_def useAutoExpandActiveCategory_def Let_def
        previous_run setCollapsed_def)
qed

text \<open>
  Claim C3: take a mounted category after any sequence of renders and header clicks. If it
  is collapsed and the next render finds the matcher true where the latest render found it
  false, that render expands it, with no click. If the next render finds the matcher false
  where the latest found it true, the collapsed state stays as it is. A render that is not
  such a rising edge never changes the collapsed state, so each rising edge expands the
  category once: the render that follows the expansion, and a render after the user has
  collapsed the still-active category again, change nothing.
\<close>

theorem auto_expand_on_activation_edge:
  "(collapsed (run isSamePath item p0 events) \<and>
    \<not> isActiveSidebarItem isSamePath item (current_path p0 events) \<and>
    isActiveSidebarItem isSamePath item p \<longrightarrow>
      \<not> collapsed (run isSamePath item p0 (events @ [Render p]))) \<and>
   (isActiveSidebarItem isSamePath item (current_path p0 events) \<and>
    \<not> isActiveSidebarItem isSamePath item p \<longrightarrow>
      collapsed (run isSamePath item p0 (events @ [Render p])) =
      collapsed (run isSamePath item p0 events)) \<and>
   (\<not> (\<not> isActiveSidebarItem isSamePath item (current_path p0 events) \<and>
       isActiveSidebarItem isSamePath item p) \<longrightarrow>
      collapsed (run isSamePath item p0 (events @ [Render p])) =
      collapsed (run isSamePath item p0 events))"
  by (auto simp add: collapsed_render)

theorem auto_expand_on_activation_edge_witness:
  "collapsed (run (=)
      (Item ''category'' ''Guides'' []
         [Item ''link'' ''A'' ''/docs/a'' [] False False Undefined] True True Undefined)
      ''/docs/b'' []) \<and>
   \<not> isActiveSidebarItem (=)
      (Item ''category'' ''Guides'' []
         [Item ''link'' ''A'' ''/docs/a'' [] False False Undefined] True True Undefined)
      (current_path ''/docs/b'' []) \<and>
   isActiveSidebarItem (=)
      (Item ''category'' ''Guides'' []
         [Item ''link'' ''A'' ''/docs/a'' [] False False Undefined] True True Undefined)
      ''/docs/a'' \<and>
   \<not> collapsed (run (=)
      (Item ''category'' ''Guides'' []
         [Item ''link'' ''A'' ''/docs/a'' [] False False Undefined] True True Undefined)
      ''/docs/b'' [Render ''/docs/a'']) \<and>
   isActiveSidebarItem (=)
      (Item ''category'' ''Guides'' []
         [Item ''link'' ''A'' ''/docs/a'' [] False False Undefined] True True Undefined)
      (current_path ''/docs/b'' [Render ''/docs/a'']) \<and>
   \<not> collapsed (run (=)
      (Item ''category'' ''Guides'' []
         [Item ''link'' ''A'' ''/docs/a'' [] False False Undefined] True True Undefined)
      ''/docs/b'' [Render ''/docs/a'', Render ''/docs/b''])"
  using auto_expand_on_activation_edge
          [of "(=)"
              "Item ''category'' ''Guides'' []
                 [Item ''link'' ''A'' ''/docs/a'' [] False False Undefined] True True Undefined"
              "''/docs/b''" "[]" "''/docs/a''"]
        auto_expand_on_activation_edge
          [of "(=)"
              "Item ''category'' ''Guides'' []
                 [Item ''link'' ''A'' ''/docs/a'' [] False False Undefined] True True Undefined"
              "''/docs/b''" "[Render ''/docs/a'']" "''/docs/b''"]
  by (simp add: run_def mount_def render_effects_def useAutoExpandActiveCategory_def
        useCollapsible_def initialState_def setCollapsed_def Let_def)

section \<open>The category header's classes\<close>

lemma split_not_Nil: "split sep cs \<noteq> []"
  by (induction cs) (simp_all split: list.splits)

lemma split_append_sep: "split sep (xs @ sep # ys) = split sep xs @ split sep ys"
proof (induction xs)
  case Nil
  show ?case by simp
next
  case (Cons c xs)
  obtain w ws where "split sep xs = w # ws"
    using split_not_Nil [of sep xs] by (cases "split sep xs") auto
  with Cons show ?case by simp
qed

lemma toVal_Str: "toVal (Str s) = s"
  by (simp add: toVal_def)

lemma truthy_object_literal: "truthy (object_literal kvs)"
  by (simp add: object_literal_def)

text \<open>
  With \<open>collapsible\<close> false the header's object literal has one truthy value, the one under
  the stylesheet's class name, also when that name repeats one of the two keys before it.
\<close>

lemma toVal_header_not_collapsible:
  "toVal (object_literal
            [(''menu__link--sublist'', Bool False),
             (''menu__link--active'', Bool False),
             (menuLinkText, Bool True)]) = menuLinkText"
  by (simp add: toVal_def object_literal_def)

lemma header_className_not_collapsible:
  "\<not> item_collapsible item \<Longrightarrow>
   header_className (DocSidebarItemCategory isSamePath menuLinkText item activePath st) =
     (if menuLinkText = [] then ''menu__link'' else ''menu__link '' @ menuLinkText)"
  by (simp add: DocSidebarItemCategory_def Let_def clsx_def toVal_header_not_collapsible
        toVal_Str truthy_object_literal)

lemma classes_of_menu_link: "classes_of ''menu__link'' = {''menu__link''}"
  by (simp add: classes_of_def)

lemma classes_of_menu_link_append:
  "classes_of (''menu__link '' @ cs) = insert ''menu__link'' (classes_of cs)"
proof -
  have "''menu__link '' @ cs = ''menu__link'' @ CHR '' '' # cs" by simp
  then have "split CHR '' '' (''menu__link '' @ cs) =
             split CHR '' '' ''menu__link'' @ split CHR '' '' cs"
    by (simp only: split_append_sep)
  then show ?thesis by (auto simp add: classes_of_def)
qed

text \<open>
  Claim C10: the header of a category that is not collapsible never carries the class
  \<open>menu__link--active\<close>, also when the category contains the active path. The class name
  the stylesheet module exports for \<open>menuLinkText\<close> is taken not to be (or contain) that
  class itself.
\<close>

theorem header_never_active_when_not_collapsible:
  assumes "\<not> item_collapsible item"
    and "''menu__link--active'' \<notin> classes_of menuLinkText"
  shows "''menu__link--active'' \<notin>
           classes_of
             (header_className
                (DocSidebarItemCategory isSamePath menuLinkText item activePath st))"
proof (cases "menuLinkText = []")
  case True
  have "header_className
      (DocSidebarItemCategory isSamePath menuLinkText item activePath st) = ''menu__link''"
    using header_className_not_collapsible [OF assms(1)] True by simp
  then show ?thesis by (simp only: classes_of_menu_link) simp
next
  case False
  have "header_className
      (DocSidebarItemCategory isSamePath menuLinkText item activePath st) =
      ''menu__link '' @ menuLinkText"
    using header_className_not_collapsible [OF assms(1)] False by simp
  then show ?thesis using assms(2) by (simp only: classes_of_menu_link_append) simp
qed

theorem header_never_active_when_not_collapsible_witness:
  "\<not> item_collapsible
       (Item ''category'' ''Guides'' []
          [Item ''link'' ''A'' ''/docs/a'' [] False False Undefined] False True Undefined) \<and>
   ''menu__link--active'' \<notin> classes_of ''menuLinkText_x1'' \<and>
   isActiveSidebarItem (=)
     (Item ''category'' ''Guides'' []
        [Item ''link'' ''A'' ''/docs/a'' [] False False Undefined] False True Undefined)
     ''/docs/a'' \<and>
   ''menu__link--active'' \<notin>
     classes_of
       (header_className
          (DocSidebarItemCategory (=) ''menuLinkText_x1''
             (Item ''category'' ''Guides'' []
                [Item ''link'' ''A'' ''/docs/a'' [] False False Undefined] False True Undefined)
             ''/docs/a'' (useCollapsible False)))"
  using header_never_active_when_not_collapsible
          [of "Item ''category'' ''Guides'' []
                 [Item ''link'' ''A'' ''/docs/a'' [] False False Undefined]
                 False True Undefined"
              "''menuLinkText_x1''" "(=)" "''/docs/a''" "useCollapsible False"]
  by (simp add: classes_of_def)

section \<open>The mobile button row\<close>

text \<open>
  On an absolute path the piece the component compares, \<open>split("/")[2]\<close>, is the second
  segment: the piece before the leading slash is the empty piece \<open>[0]\<close>.
\<close>

lemma index_split_absolute:
  "is_absolute p \<Longrightarrow> index (split CHR ''/'' p) 2 = second_segment p"
  by (cases p) (simp_all add: is_absolute_def second_segment_def path_segments_def index_def)

lemma classes_of_button:
  "classes_of ''button button--outline button--secondary button--md '' =
     {''button'', ''button--outline'', ''button--secondary'', ''button--md''}"
  by (auto simp add: classes_of_def)

lemma classes_of_button_active:
  "classes_of (''button button--outline button--secondary button--md '' @
               ''button--active--tab shadow--lw'') =
     {''button'', ''button--outline'', ''button--secondary'', ''button--md'',
      ''button--active--tab'', ''shadow--lw''}"
  by (simp add: classes_of_def)

lemma marked_active_button:
  "marked_active
     \<lparr> className = ''button button--outline button--secondary button--md '' @
                   (if b then ''button--active--tab shadow--lw'' else []),
       target = t, caption = c \<rparr> = b"
proof (cases b)
  case True
  then show ?thesis unfolding marked_active_def
    by (simp only: if_True version_link.simps classes_of_button_active) simp
next
  case False
  then show ?thesis unfolding marked_active_def
    by (simp only: if_False version_link.simps append_Nil2 classes_of_button) simp
qed

text \<open>
  Claim C9: in the mobile viewport the selector renders one button per version descriptor,
  in order, each with the version's label and its resolved target; and a button is marked
  active exactly when the second path segment of the browser location's pathname equals
  the second path segment of the version's resolved target. Both are absolute paths; a
  segment that is missing equals only another missing one.
\<close>

theorem mobile_buttons_marked_by_second_segment:
  assumes "is_absolute pathname"
    and "\<forall>Ver \<in> set api_versions. is_absolute (useBaseUrl (to Ver))"
  shows "\<exists>buttons.
           DocSidebarVersionDropdown api_versions ''mobile'' useBaseUrl (Some pathname) item
             = Button_row buttons \<and>
           length buttons = length api_versions \<and>
           (\<forall>i < length api_versions.
              target (buttons ! i) = useBaseUrl (to (api_versions ! i)) \<and>
              caption (buttons ! i) = label (api_versions ! i) \<and>
              (marked_active (buttons ! i) \<longleftrightarrow>
                 second_segment pathname =
                 second_segment (useBaseUrl (to (api_versions ! i)))))"
proof -
  let ?button = "\<lambda>Ver.
     \<lparr> className = ''button button--outline button--secondary button--md '' @
                   (if index (split CHR ''/'' pathname) 2 =
                       index (split CHR ''/'' (useBaseUrl (to Ver))) 2
                    then ''button--active--tab shadow--lw'' else []),
       target = useBaseUrl (to Ver), caption = label Ver \<rparr>"
  have view: "DocSidebarVersionDropdown api_versions ''mobile'' useBaseUrl (Some pathname) item
      = Button_row (map ?button api_versions)"
    by (simp add: DocSidebarVersionDropdown_def)
  have each: "target (map ?button api_versions ! i) = useBaseUrl (to (api_versions ! i)) \<and>
      caption (map ?button api_versions ! i) = label (api_versions ! i) \<and>
      (marked_active (map ?button api_versions ! i) \<longleftrightarrow>
         second_segment pathname = second_segment (useBaseUrl (to (api_versions ! i))))"
    if i: "i < length api_versions" for i
  proof -
    from i assms(2) have "is_absolute (useBaseUrl (to (api_versions ! i)))"
      by simp
    then have seg: "index (split CHR ''/'' (useBaseUrl (to (api_versions ! i)))) 2 =
        second_segment (useBaseUrl (to (api_versions ! i)))"
      by (rule index_split_absolute)
    have nth: "map ?button api_versions ! i = ?button (api_versions ! i)"
      using i by (rule nth_map)
    show ?thesis
      unfolding nth
      by (simp only: marked_active_button seg index_split_absolute [OF assms(1)]
            version_link.simps)
  qed
  from view each show ?thesis by (intro exI [of _ "map ?button api_versions"]) simp
qed


theorem mobile_buttons_marked_by_second_segment_witness:
  "is_absolute ''/docs/v2/intro'' \<and>
   is_absolute ''/docs/v1/'' \<and>
   is_absolute ''/docs/v2/'' \<and>
   (\<exists>buttons.
      DocSidebarVersionDropdown
        [\<lparr>version = ''1.0'', label = ''v1.0'', to = ''/docs/v1/''\<rparr>,
         \<lparr>version = ''2.0'', label = ''v2.0'', to = ''/docs/v2/''\<rparr>]
        ''mobile'' (\<lambda>u. u) (Some ''/docs/v2/intro'')
        (Item ''link'' ''v2.0'' ''#'' [] False False (Str ''versioned''))
        = Button_row buttons \<and>
      length buttons = 2 \<and>
      \<not> marked_active (buttons ! 0) \<and>
      marked_active (buttons ! 1))"
proof -
  have abs: "is_absolute ''/docs/v2/intro''"
    by (simp add: is_absolute_def)
  have all: "\<forall>Ver \<in> set [\<lparr>version = ''1.0'', label = ''v1.0'', to = ''/docs/v1/''\<rparr>,
                   \<lparr>version = ''2.0'', label = ''v2.0'', to = ''/docs/v2/''\<rparr>].
      is_absolute ((\<lambda>u. u) (to Ver))"
    by (simp add: is_absolute_def)
  have s0: "second_segment ''/docs/v2/intro'' \<noteq> second_segment ''/docs/v1/''"
    by (simp add: second_segment_def path_segments_def index_def)
  have s1: "second_segment ''/docs/v2/intro'' = second_segment ''/docs/v2/''"
    by (simp add: second_segment_def path_segments_def index_def)
  from mobile_buttons_marked_by_second_segment [OF abs all,
         of "Item ''link'' ''v2.0'' ''#'' [] False False (Str ''versioned'')"]
  obtain buttons where b:
    "DocSidebarVersionDropdown
        [\<lparr>version = ''1.0'', label = ''v1.0'', to = ''/docs/v1/''\<rparr>,
         \<lparr>version = ''2.0'', label = ''v2.0'', to = ''/docs/v2/''\<rparr>]
        ''mobile'' (\<lambda>u. u) (Some ''/docs/v2/intro'')
        (Item ''link'' ''v2.0'' ''#'' [] False False (Str ''versioned''))
        = Button_row buttons"
    "length buttons = 2"
    "\<forall>i < 2. marked_active (buttons ! i) \<longleftrightarrow>
        second_segment ''/docs/v2/intro'' =
        second_segment
          (to ([\<lparr>version = ''1.0'', label = ''v1.0'', to = ''/docs/v1/''\<rparr>,
                \<lparr>version = ''2.0'', label = ''v2.0'', to = ''/docs/v2/''\<rparr>] ! i))"
    by auto
  from b(3) have "marked_active (buttons ! 0) \<longleftrightarrow>
      second_segment ''/docs/v2/intro'' = second_segment ''/docs/v1/''"
    by (simp del: One_nat_def)
  with s0 have m0: "\<not> marked_active (buttons ! 0)" by simp
  from b(3) have "marked_active (buttons ! 1) \<longleftrightarrow>
      second_segment ''/docs/v2/intro'' = second_segment ''/docs/v2/''"
    by (auto dest: spec [of _ 1])
  with s1 have m1: "marked_active (buttons ! 1)" by simp
  have "is_absolute ''/docs/v1/''" and "is_absolute ''/docs/v2/''"
    by (simp_all add: is_absolute_def)
  with abs b(1,2) m0 m1 show ?thesis by blast
qed

end
